theory Spec2Isabelle
  imports Main "HOL-Library.Word"
begin

unbundle bit_operations_syntax

section \<open>Common types\<close>

type_synonym u8 = "8 word"
type_synonym u32 = "32 word"
type_synonym u64 = "64 word"

text \<open>
  A C function either returns a value or the process stops in it: a failed
  \<open>assert\<close>, an integer division by zero, a read through an invalid pointer or
  index.
\<close>

datatype abort_reason = AssertionFailed | DivisionByZero | InvalidAccess

datatype 'a exec = Returns 'a | Aborts abort_reason

section \<open>Outbound NOTIFY: \<open>send_notify\<close>\<close>

text \<open>
  \<open>send_notify\<close> builds a requestor and a request, runs \<open>knot_requestor_exec\<close> and
  then looks at its return code and at the extended rcode of the response.
  The requestor, the packet allocator and the logger are libraries outside the
  translated file, so their results are inputs of the model:
  \<^item> \<open>pkt_ok\<close>: \<open>knot_pkt_new\<close> returned a packet;
  \<^item> \<open>req_ok\<close>: \<open>knot_request_make\<close> returned a request;
  \<^item> \<open>exec_ret\<close>: the return code of \<open>knot_requestor_exec\<close>;
  \<^item> \<open>ext_rcode\<close>: \<open>knot_pkt_ext_rcode(req->resp)\<close>;
  \<^item> \<open>valid_bit\<close>: the constant \<open>LAST_NOTIFIED_SERIAL_VALID\<close>.
  The log lines written through \<open>NOTIFY_OUT_LOG\<close> are collected in a list.
\<close>

definition KNOT_EOK :: int where
  "KNOT_EOK = 0"

definition KNOT_ENOMEM :: int where
  "KNOT_ENOMEM = - 12"

datatype notify_log =
    LogInfoSerial u32
  | LogWarningFailed int
  | LogWarningRcode nat

record zone_timers =
  last_notified_serial :: u64

record notify_result =
  nr_ret :: int
  nr_timers :: zone_timers
  nr_log :: "notify_log list"

definition send_notify ::
  "u64 \<Rightarrow> zone_timers \<Rightarrow> u32 \<Rightarrow> bool \<Rightarrow> bool \<Rightarrow> int \<Rightarrow> nat \<Rightarrow> notify_result" where
  "send_notify valid_bit timers soa_serial pkt_ok req_ok exec_ret ext_rcode =
     (if \<not> pkt_ok then
        \<lparr>nr_ret = KNOT_ENOMEM, nr_timers = timers, nr_log = []\<rparr>
      else if \<not> req_ok then
        \<lparr>nr_ret = KNOT_ENOMEM, nr_timers = timers, nr_log = []\<rparr>
      else
        (let ret = exec_ret in
         if ret = KNOT_EOK \<and> ext_rcode = 0 then
           \<lparr>nr_ret = ret,
            nr_timers = timers\<lparr>last_notified_serial := ucast soa_serial OR valid_bit\<rparr>,
            nr_log = [LogInfoSerial soa_serial]\<rparr>
         else if ext_rcode = 0 then
           \<lparr>nr_ret = ret, nr_timers = timers,
            nr_log = [LogWarningFailed ret]\<rparr>
         else
           \<lparr>nr_ret = ret, nr_timers = timers,
            nr_log = [LogWarningRcode ext_rcode]\<rparr>))"

text \<open>The success branch: the info line is logged and the serial is recorded.\<close>

definition notify_success :: "u64 \<Rightarrow> zone_timers \<Rightarrow> u32 \<Rightarrow> notify_result \<Rightarrow> bool" where
  "notify_success valid_bit timers soa_serial r =
     (nr_log r = [LogInfoSerial soa_serial] \<and>
      nr_timers r = timers\<lparr>last_notified_serial := ucast soa_serial OR valid_bit\<rparr>)"

section \<open>The first name server: \<open>ns_answer_request\<close>\<close>

text \<open>
  \<open>ns_answer_request\<close> parses a query, looks the name up in the zone database inside
  an RCU read-side critical section, builds the response, leaves the critical
  section and encodes the response into the caller's buffer.

  The packet type and the functions \<open>dnss_*\<close> (dns-simple), \<open>zdb_find_name\<close>
  (zone-database) and \<open>zn_find_rrset\<close> (zone-node) are declared in headers that are
  not part of the translated file. The packet is a record of the fields the
  function reads; the functions are fields of an environment, with a pointer
  result that may be \<open>NULL\<close> and a status result that may be non-zero both
  modelled as \<open>option\<close> (\<open>None\<close> is \<open>NULL\<close>, or a non-zero status). The encoder
  \<open>dnss_wire_format env p cap\<close> gets the packet and the capacity \<open>*rsize\<close>; it either
  yields the encoded octets, which the caller then finds in \<open>response_wire\<close> with
  their number in \<open>*rsize\<close>, or fails and leaves both as they were.
  \<open>NDEBUG\<close> tells whether the file is compiled with assertions switched off.
\<close>

type_synonym ldns_rr = "u8 list"

record dnss_header =
  hdr_id :: nat
  hdr_tc :: bool
  hdr_rcode :: nat
  qdcount :: int

record dnss_question =
  qname :: string
  qtype :: nat
  qclass :: nat

record dnss_packet =
  header :: dnss_header
  questions :: "dnss_question list"
  answers :: "ldns_rr list"

record ('db, 'node) dnss_env =
  dnss_parse_query :: "u8 list \<Rightarrow> dnss_packet option"
  zdb_find_name :: "'db \<Rightarrow> string \<Rightarrow> 'node option"
  zn_find_rrset :: "'node \<Rightarrow> nat \<Rightarrow> ldns_rr list option"
  dnss_create_empty_packet :: "dnss_packet option"
  dnss_create_response ::
    "dnss_packet \<Rightarrow> ldns_rr list option \<Rightarrow> nat \<Rightarrow> dnss_packet \<Rightarrow> dnss_packet option"
  dnss_wire_format :: "dnss_packet \<Rightarrow> nat \<Rightarrow> u8 list option"
  dnss_create_error_response :: "dnss_packet \<Rightarrow> dnss_packet \<Rightarrow> dnss_packet option"
  NDEBUG :: bool

record 'db ns_nameserver =
  zone_db :: 'db

text \<open>\<open>ldns_rr_list_rr_count\<close> of the ldns library: 0 for a \<open>NULL\<close> list.\<close>

definition ldns_rr_list_rr_count :: "ldns_rr list option \<Rightarrow> nat" where
  "ldns_rr_list_rr_count rr_list = (case rr_list of None \<Rightarrow> 0 | Some rrs \<Rightarrow> length rrs)"

text \<open>
  What the function does to the world outside its locals, in program order: the
  two RCU calls, the lookup in the database, the read of the node
  (\<open>zn_find_rrset\<close>), the construction of the response from the node's data, and
  the two encoder calls with the packet each one is given.
\<close>

datatype ns_event =
    RcuReadLock
  | RcuReadUnlock
  | ZdbFindName string
  | ZnFindRrset nat
  | CreateResponse "ldns_rr list option"
  | WireFormat dnss_packet
  | CreateErrorResponse

record ns_result =
  ns_ret :: "int exec"
  ns_response_wire :: "u8 list"
  ns_rsize :: nat
  ns_trace :: "ns_event list"

text \<open>
  Lines 35 to 83: everything up to \<open>rcu_read_unlock\<close>. The result is either the
  early exit (\<open>Inl\<close>) or the query, the response built and the events so far.
  \<open>questions[0]\<close> of a packet without a question is an invalid read.
\<close>

definition ns_build_response ::
  "('db, 'node) dnss_env \<Rightarrow> 'db ns_nameserver \<Rightarrow> u8 list \<Rightarrow> u8 list \<Rightarrow> nat \<Rightarrow>
   ns_result + (dnss_packet \<times> dnss_packet \<times> ns_event list)" where
  "ns_build_response env nameserver query_wire response_wire rsize =
     (case dnss_parse_query env query_wire of
        None \<Rightarrow>
          Inl \<lparr>ns_ret = Returns (- 1), ns_response_wire = response_wire,
               ns_rsize = rsize, ns_trace = []\<rparr>
      | Some query \<Rightarrow>
          if qdcount (header query) \<le> 0 then
            Inl \<lparr>ns_ret = Returns (- 1), ns_response_wire = response_wire,
                 ns_rsize = rsize, ns_trace = []\<rparr>
          else
            (case questions query of
               [] \<Rightarrow>
                 Inl \<lparr>ns_ret = Aborts InvalidAccess, ns_response_wire = response_wire,
                      ns_rsize = rsize, ns_trace = [RcuReadLock]\<rparr>
             | q0 # _ \<Rightarrow>
                 (let node = zdb_find_name env (zone_db nameserver) (qname q0);
                      tr = [RcuReadLock, ZdbFindName (qname q0)]
                  in case dnss_create_empty_packet env of
                       None \<Rightarrow>
                         Inl \<lparr>ns_ret = Returns (- 1), ns_response_wire = response_wire,
                              ns_rsize = rsize, ns_trace = tr @ [RcuReadUnlock]\<rparr>
                     | Some response \<Rightarrow>
                         (case node of
                            None \<Rightarrow>
                              (case dnss_create_response env query None 0 response of
                                 None \<Rightarrow>
                                   Inl \<lparr>ns_ret = Returns (- 1),
                                        ns_response_wire = response_wire, ns_rsize = rsize,
                                        ns_trace = tr @ [CreateResponse None, RcuReadUnlock]\<rparr>
                               | Some response' \<Rightarrow>
                                   Inr (query, response',
                                        tr @ [CreateResponse None, RcuReadUnlock]))
                          | Some n \<Rightarrow>
                              (let answers_found = zn_find_rrset env n (qtype q0);
                                   tr' = tr @ [ZnFindRrset (qtype q0),
                                               CreateResponse answers_found]
                               in case dnss_create_response env query answers_found
                                         (ldns_rr_list_rr_count answers_found) response of
                                    None \<Rightarrow>
                                      Inl \<lparr>ns_ret = Returns (- 1),
                                           ns_response_wire = response_wire,
                                           ns_rsize = rsize,
                                           ns_trace = tr' @ [RcuReadUnlock]\<rparr>
                                  | Some response' \<Rightarrow>
                                      Inr (query, response', tr' @ [RcuReadUnlock]))))))"

text \<open>
  Lines 85 to 104: the encoding. When the first \<open>dnss_wire_format\<close> fails, the
  response is replaced by \<open>dnss_create_error_response\<close> and encoded again; the
  source then has \<open>assert(res != 0)\<close> on the status of the second encoding.
\<close>

definition ns_encode ::
  "('db, 'node) dnss_env \<Rightarrow> dnss_packet \<Rightarrow> dnss_packet \<Rightarrow> u8 list \<Rightarrow> nat \<Rightarrow>
   ns_event list \<Rightarrow> ns_result" where
  "ns_encode env query response response_wire rsize tr =
     (case dnss_wire_format env response rsize of
        Some w \<Rightarrow>
          \<lparr>ns_ret = Returns 0, ns_response_wire = w, ns_rsize = length w,
           ns_trace = tr @ [WireFormat response]\<rparr>
      | None \<Rightarrow>
          (case dnss_create_error_response env query response of
             None \<Rightarrow>
               \<lparr>ns_ret = Returns (- 1), ns_response_wire = response_wire, ns_rsize = rsize,
                ns_trace = tr @ [WireFormat response, CreateErrorResponse]\<rparr>
           | Some err \<Rightarrow>
               (case dnss_wire_format env err rsize of
                  Some w \<Rightarrow>
                    \<lparr>ns_ret = (if NDEBUG env then Returns 0 else Aborts AssertionFailed),
                     ns_response_wire = w, ns_rsize = length w,
                     ns_trace = tr @ [WireFormat response, CreateErrorResponse,
                                      WireFormat err]\<rparr>
                | None \<Rightarrow>
                    \<lparr>ns_ret = Returns 0, ns_response_wire = response_wire,
                     ns_rsize = rsize,
                     ns_trace = tr @ [WireFormat response, CreateErrorResponse,
                                      WireFormat err]\<rparr>)))"

definition ns_answer_request ::
  "('db, 'node) dnss_env \<Rightarrow> 'db ns_nameserver \<Rightarrow> u8 list \<Rightarrow> u8 list \<Rightarrow> nat \<Rightarrow> ns_result" where
  "ns_answer_request env nameserver query_wire response_wire rsize =
     (case ns_build_response env nameserver query_wire response_wire rsize of
        Inl early \<Rightarrow> early
      | Inr (query, response, tr) \<Rightarrow> ns_encode env query response response_wire rsize tr)"

text \<open>
  The discipline of the read-side lease on a sequence of events, with \<open>held\<close>
  saying whether the lease is held before the first of them: the lease is not
  taken twice nor released when it is not held, the database and the node are
  read and the response is built from the node's data only while it is held, the
  encoder runs only when it is not held, and it is not held at the end.
\<close>

fun lease_ok :: "bool \<Rightarrow> ns_event list \<Rightarrow> bool" where
  "lease_ok held [] = (\<not> held)"
| "lease_ok held (RcuReadLock # es) = (\<not> held \<and> lease_ok True es)"
| "lease_ok held (RcuReadUnlock # es) = (held \<and> lease_ok False es)"
| "lease_ok held (ZdbFindName n # es) = (held \<and> lease_ok held es)"
| "lease_ok held (ZnFindRrset t # es) = (held \<and> lease_ok held es)"
| "lease_ok held (CreateResponse a # es) = (held \<and> lease_ok held es)"
| "lease_ok held (WireFormat p # es) = (\<not> held \<and> lease_ok held es)"
| "lease_ok held (CreateErrorResponse # es) = lease_ok held es"

text \<open>
  The size policy as the specification words it: the TC flag set, and only the
  header and the question kept.
\<close>

definition truncated_response :: "dnss_packet \<Rightarrow> dnss_packet" where
  "truncated_response p = p\<lparr>header := (header p)\<lparr>hdr_tc := True\<rparr>, answers := []\<rparr>"

text \<open>
  A small environment to run the function on. The query is the first octet of
  the datagram as identifier and one question, \<open>a.\<close> type A; the zone has that name
  with two address records; a response is encoded as its identifier, its rcode
  and its answers; an error response has rcode 2 (SERVFAIL) and no answers.
\<close>

definition example_query :: "u8 list \<Rightarrow> dnss_packet" where
  "example_query w =
     \<lparr>header = \<lparr>hdr_id = (case w of [] \<Rightarrow> 0 | b # _ \<Rightarrow> unat b), hdr_tc = False,
                 hdr_rcode = 0, qdcount = 1\<rparr>,
      questions = [\<lparr>qname = ''a.'', qtype = 1, qclass = 1\<rparr>], answers = []\<rparr>"

definition example_encoding :: "dnss_packet \<Rightarrow> u8 list" where
  "example_encoding p =
     [of_nat (hdr_id (header p)), of_nat (hdr_rcode (header p))] @ concat (answers p)"

definition example_env :: "(unit, nat \<Rightarrow> ldns_rr list option) dnss_env" where
  "example_env =
     \<lparr>dnss_parse_query = (\<lambda>w. if w = [] then None else Some (example_query w)),
      zdb_find_name = (\<lambda>db n. if n = ''a.''
                               then Some (\<lambda>t. if t = 1 then Some [[192, 0, 2, 1], [192, 0, 2, 2]]
                                                else None)
                               else None),
      zn_find_rrset = (\<lambda>node t. node t),
      dnss_create_empty_packet =
        Some \<lparr>header = \<lparr>hdr_id = 0, hdr_tc = False, hdr_rcode = 0, qdcount = 0\<rparr>,
              questions = [], answers = []\<rparr>,
      dnss_create_response =
        (\<lambda>q a n r. Some \<lparr>header = (header q)\<lparr>hdr_rcode := 0\<rparr>, questions = questions q,
                          answers = (case a of None \<Rightarrow> [] | Some rrs \<Rightarrow> take n rrs)\<rparr>),
      dnss_wire_format =
        (\<lambda>p cap. if length (example_encoding p) \<le> cap then Some (example_encoding p)
                  else None),
      dnss_create_error_response =
        (\<lambda>q r. Some \<lparr>header = (header q)\<lparr>hdr_rcode := 2\<rparr>, questions = questions q,
                      answers = []\<rparr>),
      NDEBUG = True\<rparr>"

text \<open>The response and the error response of the example environment for the query \<open>[52, 18]\<close>.\<close>

definition example_response :: dnss_packet where
  "example_response =
     \<lparr>header = \<lparr>hdr_id = 52, hdr_tc = False, hdr_rcode = 0, qdcount = 1\<rparr>,
      questions = [\<lparr>qname = ''a.'', qtype = 1, qclass = 1\<rparr>],
      answers = [[192, 0, 2, 1], [192, 0, 2, 2]]\<rparr>"

definition example_servfail :: dnss_packet where
  "example_servfail =
     \<lparr>header = \<lparr>hdr_id = 52, hdr_tc = False, hdr_rcode = 2, qdcount = 1\<rparr>,
      questions = [\<lparr>qname = ''a.'', qtype = 1, qclass = 1\<rparr>], answers = []\<rparr>"

section \<open>Packets and query layers\<close>

text \<open>
  Modelled from the spec: the packet of libknot (\<open>knot_pkt_t\<close>, whose header
  \<open>libknot/libknot.h\<close> is not part of the translated file). A message is a header,
  a question and ordered sections of record sets; the packet also knows how many
  octets it has (\<open>size\<close>), how many fit (\<open>max_size\<close>) and how many the parser has
  consumed (\<open>parsed\<close>). The header is kept as its fields, not as octets.
\<close>

datatype knot_section = KNOT_ANSWER | KNOT_AUTHORITY | KNOT_ADDITIONAL

record knot_rrset =
  rr_owner :: string
  rr_type :: nat
  rr_class :: nat
  rr_rdata :: "u8 list list"

record knot_wire =
  wire_id :: nat
  wire_opcode :: nat
  wire_aa :: bool
  wire_rcode :: nat

record knot_pkt =
  wire :: knot_wire
  pkt_size :: nat
  max_size :: nat
  parsed :: nat
  question :: "(string \<times> nat \<times> nat) option"
  current :: knot_section
  rrsets :: "(knot_section \<times> knot_rrset) list"

definition KNOT_WIRE_HEADER_SIZE :: nat where
  "KNOT_WIRE_HEADER_SIZE = 12"


text \<open>
  Modelled from the spec: \<open>knot_pkt_new\<close> over a caller's buffer. The packet takes
  the buffer as its wire and the buffer's length as its size; nothing is parsed
  yet.
\<close>

definition knot_pkt_new :: "knot_wire \<Rightarrow> nat \<Rightarrow> knot_pkt" where
  "knot_pkt_new base len =
     \<lparr>wire = base, pkt_size = len, max_size = len, parsed = 0, question = None,
      current = KNOT_ANSWER, rrsets = []\<rparr>"

text \<open>
  Modelled from the spec: the layer abstraction of \<open>knot/query/layer.h\<close>. A layer
  has a state and its own data; each operation of the function table gets the
  layer and its argument and returns the next state, which the driver call
  \<open>knot_layer_*\<close> stores in the layer. \<open>produce\<close> also writes the outgoing packet.
  The states are those the specification and the source name, and \<open>NOOP\<close> for a
  layer that ignores what it was given.
\<close>

datatype knot_state =
    KNOT_STATE_NOOP
  | KNOT_STATE_CONSUME
  | KNOT_STATE_PRODUCE
  | KNOT_STATE_RESET
  | KNOT_STATE_DONE
  | KNOT_STATE_FAIL

record 'd knot_layer =
  state :: knot_state
  data :: 'd






section \<open>The datagram pipeline: \<open>udp_handle\<close>\<close>


























section \<open>Ancillary data: \<open>udp_pktinfo_handle\<close>\<close>

text \<open>
  A control message is a tagged union: its level and type say what its data is.
  The two kinds the function looks for are \<open>IP_PKTINFO\<close> at level \<open>IPPROTO_IP\<close> and
  \<open>IPV6_PKTINFO\<close> at level \<open>IPPROTO_IPV6\<close>; any other message keeps its level,
  type and octets.
\<close>

record in_pktinfo =
  ipi_ifindex :: int
  ipi_spec_dst :: u32
  ipi_addr :: u32

record in6_pktinfo =
  ipi6_addr :: "128 word"
  ipi6_ifindex :: nat

datatype cmsghdr =
    CmsgInPktinfo in_pktinfo
  | CmsgIn6Pktinfo in6_pktinfo
  | CmsgOther int int "u8 list"

text \<open>
  A message header points to its control buffer; the buffers live in a store,
  since the function makes the outgoing header point to the buffer of the
  received one and then writes through that pointer.
\<close>

record msghdr =
  msg_control :: "nat option"
  msg_controllen :: nat

type_synonym control_store = "nat \<Rightarrow> cmsghdr option"

text \<open>
  What the build fixes: whether \<open>__linux__\<close> or \<open>__APPLE__\<close> is defined, which the
  source tests before it touches the message, and \<open>sizeof(struct cmsghdr)\<close>.
\<close>

record platform =
  linux_or_apple :: bool
  sizeof_cmsghdr :: nat

definition CMSG_FIRSTHDR :: "platform \<Rightarrow> msghdr \<Rightarrow> nat option" where
  "CMSG_FIRSTHDR plat mhdr =
     (if msg_controllen mhdr \<ge> sizeof_cmsghdr plat then msg_control mhdr else None)"

definition udp_pktinfo_handle ::
  "platform \<Rightarrow> control_store \<Rightarrow> msghdr \<Rightarrow> msghdr \<Rightarrow> (msghdr \<times> control_store) exec" where
  "udp_pktinfo_handle plat mem rx tx =
     (let tx1 = tx\<lparr>msg_controllen := msg_controllen rx\<rparr>;
          tx2 = (if msg_controllen tx1 > 0 then tx1\<lparr>msg_control := msg_control rx\<rparr>
                 else tx1\<lparr>msg_control := None\<rparr>)
      in if \<not> linux_or_apple plat then Returns (tx2, mem)
         else
           (case CMSG_FIRSTHDR plat tx2 of
              None \<Rightarrow> Returns (tx2, mem)
            | Some p \<Rightarrow>
                (case mem p of
                   None \<Rightarrow> Aborts InvalidAccess
                 | Some (CmsgInPktinfo info) \<Rightarrow>
                     Returns (tx2, mem(p \<mapsto> CmsgInPktinfo
                                (info\<lparr>ipi_spec_dst := ipi_addr info, ipi_ifindex := 0\<rparr>)))
                 | Some (CmsgIn6Pktinfo info) \<Rightarrow>
                     Returns (tx2, mem(p \<mapsto> CmsgIn6Pktinfo (info\<lparr>ipi6_ifindex := 0\<rparr>)))
                 | Some (CmsgOther lvl ty octets) \<Rightarrow> Returns (tx2, mem))))"

section \<open>Outbound NOTIFY: \<open>notify_produce\<close>\<close>

text \<open>
  Modelled from the spec: the packet operations of libknot and of
  \<open>knot/query/query.h\<close> that \<open>notify_produce\<close> calls, none of them part of the
  translated file. \<open>query_init_pkt\<close> empties the packet and gives it a fresh
  identifier (an argument here); the two \<open>knot_wire_set_*\<close> set a header field;
  \<open>knot_pkt_put_question\<close> writes the question; \<open>knot_pkt_begin\<close> opens a section and
  \<open>knot_pkt_put\<close> appends a record set to the open one; \<open>query_put_edns\<close> puts the
  OPT record into the additional section. Space is not modelled: the packet that
  \<open>send_notify\<close> allocates has \<open>KNOT_WIRE_MAX_PKTSIZE\<close> octets.
\<close>

definition KNOT_OPCODE_NOTIFY :: nat where
  "KNOT_OPCODE_NOTIFY = 4"

definition KNOT_CLASS_IN :: nat where
  "KNOT_CLASS_IN = 1"

definition KNOT_RRTYPE_SOA :: nat where
  "KNOT_RRTYPE_SOA = 6"

definition KNOT_RRTYPE_OPT :: nat where
  "KNOT_RRTYPE_OPT = 41"

record query_edns_data =
  max_payload :: nat
  do_flag :: bool

definition query_init_pkt :: "nat \<Rightarrow> knot_pkt \<Rightarrow> knot_pkt" where
  "query_init_pkt rnd pkt =
     pkt\<lparr>wire := \<lparr>wire_id = rnd, wire_opcode = 0, wire_aa = False, wire_rcode = 0\<rparr>,
         pkt_size := KNOT_WIRE_HEADER_SIZE, parsed := 0, question := None,
         current := KNOT_ANSWER, rrsets := []\<rparr>"

definition knot_wire_set_opcode :: "knot_wire \<Rightarrow> nat \<Rightarrow> knot_wire" where
  "knot_wire_set_opcode w opcode = w\<lparr>wire_opcode := opcode\<rparr>"

definition knot_wire_set_aa :: "knot_wire \<Rightarrow> knot_wire" where
  "knot_wire_set_aa w = w\<lparr>wire_aa := True\<rparr>"

definition knot_pkt_put_question :: "knot_pkt \<Rightarrow> string \<Rightarrow> nat \<Rightarrow> nat \<Rightarrow> knot_pkt" where
  "knot_pkt_put_question pkt qn qc qt = pkt\<lparr>question := Some (qn, qc, qt)\<rparr>"

definition knot_pkt_begin :: "knot_pkt \<Rightarrow> knot_section \<Rightarrow> knot_pkt" where
  "knot_pkt_begin pkt section_id = pkt\<lparr>current := section_id\<rparr>"

definition knot_pkt_put :: "knot_pkt \<Rightarrow> knot_rrset \<Rightarrow> knot_pkt" where
  "knot_pkt_put pkt rr = pkt\<lparr>rrsets := rrsets pkt @ [(current pkt, rr)]\<rparr>"

definition query_put_edns :: "knot_pkt \<Rightarrow> query_edns_data \<Rightarrow> knot_pkt" where
  "query_put_edns pkt e =
     knot_pkt_put (knot_pkt_begin pkt KNOT_ADDITIONAL)
       \<lparr>rr_owner = ''.'', rr_type = KNOT_RRTYPE_OPT, rr_class = max_payload e, rr_rdata = []\<rparr>"

text \<open>The record sets of one section of a packet, in order.\<close>

definition section_rrsets :: "knot_pkt \<Rightarrow> knot_section \<Rightarrow> knot_rrset list" where
  "section_rrsets pkt section_id = map snd (filter (\<lambda>x. fst x = section_id) (rrsets pkt))"

record notify_data =
  zone :: string
  soa :: "knot_rrset option"
  notify_remote :: "u8 list"
  edns :: query_edns_data

definition notify_begin ::
  "notify_data knot_layer \<Rightarrow> notify_data \<Rightarrow> knot_state \<times> notify_data knot_layer" where
  "notify_begin l params = (KNOT_STATE_PRODUCE, l\<lparr>data := params\<rparr>)"

definition notify_produce ::
  "nat \<Rightarrow> notify_data knot_layer \<Rightarrow> knot_pkt \<Rightarrow>
   knot_state \<times> notify_data knot_layer \<times> knot_pkt" where
  "notify_produce rnd l pkt =
     (let d = data l;
          pkt1 = query_init_pkt rnd pkt;
          pkt2 = pkt1\<lparr>wire := knot_wire_set_opcode (wire pkt1) KNOT_OPCODE_NOTIFY\<rparr>;
          pkt3 = pkt2\<lparr>wire := knot_wire_set_aa (wire pkt2)\<rparr>;
          pkt4 = knot_pkt_put_question pkt3 (zone d) KNOT_CLASS_IN KNOT_RRTYPE_SOA;
          pkt5 = (case soa d of
                    None \<Rightarrow> pkt4
                  | Some s \<Rightarrow> knot_pkt_put (knot_pkt_begin pkt4 KNOT_ANSWER) s);
          pkt6 = query_put_edns pkt5 (edns d)
      in (KNOT_STATE_CONSUME, l, pkt6))"

definition notify_consume ::
  "notify_data knot_layer \<Rightarrow> knot_pkt \<Rightarrow> knot_state \<times> notify_data knot_layer" where
  "notify_consume l pkt = (KNOT_STATE_DONE, l)"

definition example_soa :: knot_rrset where
  "example_soa =
     \<lparr>rr_owner = ''example.'', rr_type = 6, rr_class = 1, rr_rdata = [[0, 0, 0, 7]]\<rparr>"

definition example_notify_layer :: "notify_data knot_layer" where
  "example_notify_layer =
     \<lparr>state = KNOT_STATE_PRODUCE,
      data = \<lparr>zone = ''example.'', soa = Some example_soa, notify_remote = [],
              edns = \<lparr>max_payload = 1232, do_flag = False\<rparr>\<rparr>\<rparr>"

section \<open>The QUIC connection table\<close>

text \<open>
  A connection ID (\<open>ngtcp2_cid\<close> of the ngtcp2 library) is a length \<open>datalen\<close> and
  an array of \<open>NGTCP2_MAX_CIDLEN\<close> octets of which the first \<open>datalen\<close> count. The
  functions here read no octet beyond \<open>datalen\<close>, so the model is the list of
  these octets, \<open>datalen\<close> being its length. \<open>ngtcp2_cid_init\<close> copies an ID and
  asserts that it fits; \<open>ngtcp2_cid_eq\<close> compares lengths and octets.
\<close>

type_synonym ngtcp2_cid = "u8 list"

definition NGTCP2_MAX_CIDLEN :: nat where
  "NGTCP2_MAX_CIDLEN = 20"

definition ngtcp2_cid_init :: "u8 list \<Rightarrow> ngtcp2_cid exec" where
  "ngtcp2_cid_init octets =
     (if length octets \<le> NGTCP2_MAX_CIDLEN then Returns octets else Aborts AssertionFailed)"

definition ngtcp2_cid_eq :: "ngtcp2_cid \<Rightarrow> ngtcp2_cid \<Rightarrow> bool" where
  "ngtcp2_cid_eq a b = (length a = length b \<and> a = b)"

text \<open>
  Two things in \<open>knot_quic_conn_hash\<close> are left to the machine and the compiler:
  the value of the eight octets read through a \<open>uint64_t\<close> pointer (the byte
  order), and the value of \<open>(*it2) << (shift * 8)\<close>, a shift of an \<open>int\<close>, converted
  to \<open>uint64_t\<close>; the shift counts go from 56 down, and C defines the result only
  for counts below the width of \<open>int\<close>. Both are fields of \<open>host\<close>.
\<close>

record host =
  load_u64 :: "u8 list \<Rightarrow> u64"
  shl_int :: "u8 \<Rightarrow> nat \<Rightarrow> u64"

text \<open>The first loop: whole 8-octet words, while at least 8 octets remain.\<close>

function hash_words :: "host \<Rightarrow> u8 list \<Rightarrow> u64 \<Rightarrow> u64 \<times> u8 list" where
  "hash_words h octets hash =
     (if 8 \<le> length octets
      then hash_words h (drop 8 octets) (hash XOR load_u64 h (take 8 octets))
      else (hash, octets))"
  by pat_completeness auto
termination
  by (relation "measure (\<lambda>(h, octets, hash). length octets)") auto

text \<open>The second loop: the octets left, with \<open>shift\<close> counting down from 7.\<close>

fun hash_bytes :: "host \<Rightarrow> u8 list \<Rightarrow> u64 \<Rightarrow> u64 \<Rightarrow> u64" where
  "hash_bytes h [] shift hash = hash"
| "hash_bytes h (b # octets) shift hash =
     hash_bytes h octets (shift - 1) (hash XOR shl_int h b (unat shift * 8))"

definition knot_quic_conn_hash :: "host \<Rightarrow> ngtcp2_cid \<Rightarrow> u64" where
  "knot_quic_conn_hash h cid =
     (case hash_words h (take (min (length cid) NGTCP2_MAX_CIDLEN) cid) 0 of
        (hash, rest) \<Rightarrow> hash_bytes h rest 7 hash)"





text \<open>
  The table: \<open>size\<close> buckets, each the head of a chain of connections linked
  through \<open>next\<close>. Connections are allocated one by one; the store maps the address
  of each to its contents.
\<close>

record knot_quic_conn =
  dcid :: ngtcp2_cid
  ngtcp2_conn :: "nat option"
  "next" :: "nat option"

record knot_quic_table =
  table_size :: nat
  usage :: nat
  inbufs_total :: nat
  conns :: "nat option list"

type_synonym conn_store = "nat \<Rightarrow> knot_quic_conn option"

text \<open>
  \<open>knot_quic_table_new\<close> asks \<open>calloc\<close> for
  \<open>sizeof(*table) + size * sizeof(table->conns[0])\<close> octets, a sum computed in
  \<open>size_t\<close>, here 64 bits wide, so that it wraps around for a large \<open>size\<close>. The
  fixed part of the table is three \<open>size_t\<close> fields, a bucket is one pointer.
  \<open>calloc\<close> may fail: \<open>calloc_ok\<close> is its outcome. When it succeeds the table has
  the buckets that fit into the octets allocated behind the fixed part, while
  \<open>table->size\<close> is the \<open>size\<close> asked for; when not even the fixed part fits, the
  store to \<open>table->size\<close> is outside the allocation.
\<close>

definition sizeof_knot_quic_table :: nat where
  "sizeof_knot_quic_table = 24"

definition sizeof_conn_pointer :: nat where
  "sizeof_conn_pointer = 8"

definition knot_quic_table_new :: "u64 \<Rightarrow> bool \<Rightarrow> knot_quic_table option exec" where
  "knot_quic_table_new sz calloc_ok =
     (let octets = unat (of_nat sizeof_knot_quic_table + sz * of_nat sizeof_conn_pointer :: u64)
      in if \<not> calloc_ok then Returns None
         else if octets < sizeof_knot_quic_table then Aborts InvalidAccess
         else Returns (Some
                \<lparr>table_size = unat sz, usage = 0, inbufs_total = 0,
                 conns = replicate ((octets - sizeof_knot_quic_table) div sizeof_conn_pointer)
                           None\<rparr>))"


text \<open>
  \<open>knot_quic_table_add\<close>: \<open>fresh\<close> is what \<open>calloc\<close> returns for the new connection,
  \<open>None\<close> for \<open>NULL\<close>. The remainder by a table size of 0 stops the process, and so
  does a bucket index outside the array.
\<close>

definition knot_quic_table_add ::
  "host \<Rightarrow> conn_store \<Rightarrow> knot_quic_table \<Rightarrow> ngtcp2_cid \<Rightarrow> nat option \<Rightarrow>
   (nat option \<times> conn_store \<times> knot_quic_table) exec" where
  "knot_quic_table_add h mem table cid fresh =
     (case fresh of
        None \<Rightarrow> Returns (None, mem, table)
      | Some p \<Rightarrow>
          (case ngtcp2_cid_init cid of
             Aborts why \<Rightarrow> Aborts why
           | Returns cid' \<Rightarrow>
               if table_size table = 0 then Aborts DivisionByZero
               else
                 (let hash = unat (knot_quic_conn_hash h cid') mod table_size table
                  in if hash \<ge> length (conns table) then Aborts InvalidAccess
                     else Returns (Some p,
                            mem(p \<mapsto> \<lparr>dcid = cid', ngtcp2_conn = None,
                                        next = conns table ! hash\<rparr>),
                            table\<lparr>conns := (conns table)[hash := Some p]\<rparr>))))"

text \<open>
  The chain walk of \<open>knot_quic_table_find\<close>. A chain that loops makes the walk run
  forever: \<open>None\<close>.
\<close>

partial_function (option) quic_find_loop ::
  "conn_store \<Rightarrow> ngtcp2_cid \<Rightarrow> nat option \<Rightarrow> nat option exec option" where
  "quic_find_loop mem cid cur =
     (case cur of
        None \<Rightarrow> Some (Returns None)
      | Some p \<Rightarrow>
          (case mem p of
             None \<Rightarrow> Some (Aborts InvalidAccess)
           | Some c \<Rightarrow>
               if ngtcp2_cid_eq (dcid c) cid then Some (Returns (Some p))
               else quic_find_loop mem cid (next c)))"

definition knot_quic_table_find ::
  "host \<Rightarrow> conn_store \<Rightarrow> knot_quic_table \<Rightarrow> ngtcp2_cid \<Rightarrow> nat option exec option" where
  "knot_quic_table_find h mem table cid =
     (if table_size table = 0 then Some (Aborts DivisionByZero)
      else
        (let hash = unat (knot_quic_conn_hash h cid) mod table_size table
         in if hash \<ge> length (conns table) then Some (Aborts InvalidAccess)
            else quic_find_loop mem cid (conns table ! hash)))"



text \<open>
  A little-endian host whose compiler shifts an \<open>int\<close> by the count modulo 32
  and sign-extends the result, as x86-64 does.
\<close>

definition example_host :: host where
  "example_host =
     \<lparr>load_u64 = (\<lambda>octets. word_rcat (rev octets)),
      shl_int = (\<lambda>b n. scast (push_bit (n mod 32) (ucast b :: 32 word)))\<rparr>"

text \<open>A table of four buckets and an ID of nine octets to run the functions on.\<close>

definition example_cid :: ngtcp2_cid where
  "example_cid = [1, 2, 3, 4, 5, 6, 7, 8, 9]"

definition example_table :: knot_quic_table where
  "example_table =
     \<lparr>table_size = 4, usage = 0, inbufs_total = 0, conns = [None, None, None, None]\<rparr>"


section \<open>Theorems\<close>

subsection \<open>\<open>send_notify\<close>\<close>

text \<open>
  Claim C7, as stated, fails: with a requestor that did not complete (return code
  \<open>-1\<close>) and a response whose extended rcode is 0, \<open>send_notify\<close> takes the
  "failed" warning branch, logs no success and leaves the last-notified serial
  as it was.
\<close>

theorem send_notify_rcode0_not_success:
  "nr_log (send_notify (push_bit 32 1) \<lparr>last_notified_serial = 0\<rparr> 7 True True (- 1) 0)
     = [LogWarningFailed (- 1)] \<and>
   nr_timers (send_notify (push_bit 32 1) \<lparr>last_notified_serial = 0\<rparr> 7 True True (- 1) 0)
     = \<lparr>last_notified_serial = 0\<rparr> \<and>
   \<not> notify_success (push_bit 32 1) \<lparr>last_notified_serial = 0\<rparr> 7
        (send_notify (push_bit 32 1) \<lparr>last_notified_serial = 0\<rparr> 7 True True (- 1) 0)"
  by (simp add: send_notify_def notify_success_def KNOT_EOK_def Let_def)

text \<open>
  Claim C7, amended: once the request has been made, the success branch of
  \<open>send_notify\<close> (success logged with the serial, last-notified serial recorded
  with its valid bit) is taken exactly when \<open>knot_requestor_exec\<close> returns
  \<open>KNOT_EOK\<close> and the extended rcode of the response is 0; in every other case
  a warning is logged and the timers are unchanged. The return value is that of
  \<open>knot_requestor_exec\<close>.
\<close>

theorem send_notify_success_iff:
  assumes "pkt_ok" and "req_ok"
  shows "((nr_log (send_notify vb t s pkt_ok req_ok ret rc) = [LogInfoSerial s])
            = (ret = KNOT_EOK \<and> rc = 0)) \<and>
         (if ret = KNOT_EOK \<and> rc = 0
          then notify_success vb t s (send_notify vb t s pkt_ok req_ok ret rc)
          else nr_timers (send_notify vb t s pkt_ok req_ok ret rc) = t \<and>
               nr_log (send_notify vb t s pkt_ok req_ok ret rc) =
                 [if rc = 0 then LogWarningFailed ret else LogWarningRcode rc]) \<and>
         nr_ret (send_notify vb t s pkt_ok req_ok ret rc) = ret"
  using assms by (auto simp: send_notify_def notify_success_def Let_def)

theorem send_notify_success_iff_witness:
  "nr_log (send_notify (push_bit 32 1) \<lparr>last_notified_serial = 0\<rparr> 7 True True 0 0)
     = [LogInfoSerial 7] \<and>
   notify_success (push_bit 32 1) \<lparr>last_notified_serial = 0\<rparr> 7
     (send_notify (push_bit 32 1) \<lparr>last_notified_serial = 0\<rparr> 7 True True 0 0) \<and>
   nr_log (send_notify (push_bit 32 1) \<lparr>last_notified_serial = 0\<rparr> 7 True True 0 5)
     = [LogWarningRcode 5]"
  using send_notify_success_iff [of True True "push_bit 32 1" "\<lparr>last_notified_serial = 0\<rparr>" 7 0 0]
    send_notify_success_iff [of True True "push_bit 32 1" "\<lparr>last_notified_serial = 0\<rparr>" 7 0 5]
  by (simp add: KNOT_EOK_def)

subsection \<open>\<open>ns_answer_request\<close>\<close>


lemma lease_ok_append:
  "lease_ok h tr \<Longrightarrow> lease_ok False es \<Longrightarrow> lease_ok h (tr @ es)"
  by (induction h tr rule: lease_ok.induct) auto

lemma ns_build_response_Inl:
  assumes "ns_build_response env nameserver query_wire response_wire rsize = Inl r"
  shows "ns_response_wire r = response_wire" and "ns_rsize r = rsize"
    and "ns_ret r = Returns (- 1) \<or> ns_ret r = Aborts InvalidAccess"
    and "ns_ret r \<noteq> Aborts InvalidAccess \<Longrightarrow> lease_ok False (ns_trace r)"
    and "length (filter (\<lambda>e. e = RcuReadLock) (ns_trace r)) \<le> 1"
  using assms
  by (auto simp: ns_build_response_def Let_def split: option.splits list.splits if_splits)

lemma ns_build_response_Inr:
  assumes "ns_build_response env nameserver query_wire response_wire rsize = Inr (q, resp, tr)"
  shows "lease_ok False tr"
    and "length (filter (\<lambda>e. e = RcuReadLock) tr) = 1"
    and "dnss_parse_query env query_wire = Some q" and "0 < qdcount (header q)"
  using assms
  by (auto simp: ns_build_response_def Let_def split: option.splits list.splits if_splits)

lemma ns_encode_trace:
  "\<exists>es. ns_trace (ns_encode env q resp response_wire rsize tr) = tr @ es \<and> lease_ok False es
        \<and> filter (\<lambda>e. e = RcuReadLock) es = []"
  by (simp add: ns_encode_def split: option.splits)



lemma example_build:
  "ns_build_response example_env \<lparr>zone_db = ()\<rparr> [52, 18] [] 5 =
     Inr (example_query [52, 18], example_response,
          [RcuReadLock, ZdbFindName ''a.'', ZnFindRrset 1,
           CreateResponse (Some [[192, 0, 2, 1], [192, 0, 2, 2]]), RcuReadUnlock])"
  by (simp add: ns_build_response_def example_env_def example_query_def example_response_def
        ldns_rr_list_rr_count_def Let_def)

lemma example_too_long: "dnss_wire_format example_env example_response 5 = None"
  by (simp add: example_env_def example_response_def example_encoding_def)

lemma example_error_response:
  "dnss_create_error_response example_env (example_query [52, 18]) example_response
     = Some example_servfail"
  by (simp add: example_env_def example_query_def example_servfail_def)

lemma example_servfail_fits: "dnss_wire_format example_env example_servfail 5 = Some [52, 2]"
  by (simp add: example_env_def example_servfail_def example_encoding_def)

text \<open>
  Claim C8, as stated, fails. In the example the response with its two answers
  does not fit into 5 octets; the packet encoded instead is the error response
  of \<open>dnss_create_error_response\<close>, here rcode 2 (SERVFAIL) with the TC flag
  clear, and not the response with TC set and its answers removed.
\<close>

theorem ns_answer_request_too_long_counterexample:
  "dnss_wire_format example_env example_response 5 = None \<and>
   ns_trace (ns_answer_request example_env \<lparr>zone_db = ()\<rparr> [52, 18] [] 5) =
     [RcuReadLock, ZdbFindName ''a.'', ZnFindRrset 1,
      CreateResponse (Some [[192, 0, 2, 1], [192, 0, 2, 2]]), RcuReadUnlock,
      WireFormat example_response, CreateErrorResponse, WireFormat example_servfail] \<and>
   ns_response_wire (ns_answer_request example_env \<lparr>zone_db = ()\<rparr> [52, 18] [] 5)
     = example_encoding example_servfail \<and>
   example_servfail \<noteq> truncated_response example_response \<and>
   hdr_rcode (header example_servfail) = 2 \<and>
   \<not> hdr_tc (header example_servfail) \<and>
   example_encoding example_servfail \<noteq> example_encoding (truncated_response example_response)"
  by (simp add: ns_answer_request_def example_build ns_encode_def example_too_long
        example_error_response example_servfail_fits)
     (simp add: example_servfail_def example_response_def truncated_response_def
        example_encoding_def)

text \<open>
  Claim C8, amended: when \<open>dnss_wire_format\<close> fails on the response built,
  \<open>ns_answer_request\<close> replaces the response by the error response of
  \<open>dnss_create_error_response\<close> and encodes that one into the buffer, setting no
  TC flag; when the error response cannot be created it returns \<open>-1\<close> and the
  buffer is untouched.
\<close>

theorem ns_answer_request_encode_failure:
  assumes "ns_build_response env nameserver query_wire response_wire rsize
             = Inr (query, response, tr)"
      and "dnss_wire_format env response rsize = None"
  shows "case dnss_create_error_response env query response of
           None \<Rightarrow>
             ns_answer_request env nameserver query_wire response_wire rsize =
               \<lparr>ns_ret = Returns (- 1), ns_response_wire = response_wire, ns_rsize = rsize,
                ns_trace = tr @ [WireFormat response, CreateErrorResponse]\<rparr>
         | Some err \<Rightarrow>
             ns_trace (ns_answer_request env nameserver query_wire response_wire rsize) =
               tr @ [WireFormat response, CreateErrorResponse, WireFormat err] \<and>
             ns_response_wire (ns_answer_request env nameserver query_wire response_wire rsize) =
               (case dnss_wire_format env err rsize of Some w \<Rightarrow> w | None \<Rightarrow> response_wire) \<and>
             ns_rsize (ns_answer_request env nameserver query_wire response_wire rsize) =
               (case dnss_wire_format env err rsize of Some w \<Rightarrow> length w | None \<Rightarrow> rsize)"
  using assms by (simp add: ns_answer_request_def ns_encode_def split: option.splits)

theorem ns_answer_request_encode_failure_witness:
  "ns_trace (ns_answer_request example_env \<lparr>zone_db = ()\<rparr> [52, 18] [] 5) =
     [RcuReadLock, ZdbFindName ''a.'', ZnFindRrset 1,
      CreateResponse (Some [[192, 0, 2, 1], [192, 0, 2, 2]]), RcuReadUnlock,
      WireFormat example_response, CreateErrorResponse, WireFormat example_servfail] \<and>
   ns_response_wire (ns_answer_request example_env \<lparr>zone_db = ()\<rparr> [52, 18] [] 5) = [52, 2] \<and>
   ns_rsize (ns_answer_request example_env \<lparr>zone_db = ()\<rparr> [52, 18] [] 5) = 2"
  using ns_answer_request_encode_failure [OF example_build example_too_long]
  by (simp add: example_error_response example_servfail_fits)

text \<open>
  Claim C3: on every path of \<open>ns_answer_request\<close> that returns (and on the path
  that stops at the assertion) the events obey the lease discipline
  \<open>lease_ok\<close>: \<open>rcu_read_lock\<close> comes before \<open>zdb_find_name\<close>; the node is read and
  the response is built from its data while the lease is held;
  \<open>rcu_read_unlock\<close> follows, once, before any \<open>dnss_wire_format\<close>; on the error
  paths the lease taken is released before the return; and the lease is taken
  at most once.
\<close>

theorem ns_answer_request_lease:
  assumes "ns_ret (ns_answer_request env nameserver query_wire response_wire rsize)
             \<noteq> Aborts InvalidAccess"
  shows "lease_ok False
           (ns_trace (ns_answer_request env nameserver query_wire response_wire rsize)) \<and>
         length (filter (\<lambda>e. e = RcuReadLock)
           (ns_trace (ns_answer_request env nameserver query_wire response_wire rsize))) \<le> 1"
proof (cases "ns_build_response env nameserver query_wire response_wire rsize")
  case (Inl r)
  then have eq: "ns_answer_request env nameserver query_wire response_wire rsize = r"
    by (simp add: ns_answer_request_def)
  with assms ns_build_response_Inl(4,5) [OF Inl] show ?thesis by simp
next
  case (Inr x)
  obtain q resp tr where x: "x = (q, resp, tr)" by (cases x) auto
  have eq: "ns_answer_request env nameserver query_wire response_wire rsize =
              ns_encode env q resp response_wire rsize tr"
    using Inr x by (simp add: ns_answer_request_def)
  obtain es where es: "ns_trace (ns_encode env q resp response_wire rsize tr) = tr @ es"
      "lease_ok False es" "filter (\<lambda>e. e = RcuReadLock) es = []"
    using ns_encode_trace by blast
  from Inr x have b: "lease_ok False tr" "length (filter (\<lambda>e. e = RcuReadLock) tr) = 1"
    by (simp_all add: ns_build_response_Inr)
  show ?thesis using eq es b by (simp add: lease_ok_append)
qed

theorem ns_answer_request_lease_witness:
  "ns_ret (ns_answer_request example_env \<lparr>zone_db = ()\<rparr> [52, 18] [] 512) = Returns 0 \<and>
   ns_trace (ns_answer_request example_env \<lparr>zone_db = ()\<rparr> [52, 18] [] 512) \<noteq> [] \<and>
   lease_ok False (ns_trace (ns_answer_request example_env \<lparr>zone_db = ()\<rparr> [52, 18] [] 512))"
  using ns_answer_request_lease [of example_env "\<lparr>zone_db = ()\<rparr>" "[52, 18]" "[]" 512]
  by (simp add: ns_answer_request_def ns_build_response_def ns_encode_def example_env_def example_query_def example_encoding_def
        ldns_rr_list_rr_count_def Let_def)





subsection \<open>\<open>udp_handle\<close>\<close>






















subsection \<open>\<open>udp_pktinfo_handle\<close>\<close>

text \<open>
  Claim C9, as stated, fails: the part of the function that rewrites the
  message is compiled only where \<open>__linux__\<close> or \<open>__APPLE__\<close> is defined. On
  any other build a received IPv4 \<open>PKTINFO\<close> with interface index 3 goes out
  with interface index 3 and its source address not set.
\<close>

theorem udp_pktinfo_handle_other_os_counterexample:
  "udp_pktinfo_handle \<lparr>linux_or_apple = False, sizeof_cmsghdr = 16\<rparr>
     (\<lambda>p. if p = 1 then Some (CmsgInPktinfo
                \<lparr>ipi_ifindex = 3, ipi_spec_dst = 0, ipi_addr = 3221225985\<rparr>) else None)
     \<lparr>msg_control = Some 1, msg_controllen = 28\<rparr>
     \<lparr>msg_control = Some 1, msg_controllen = 40\<rparr>
   = Returns (\<lparr>msg_control = Some 1, msg_controllen = 28\<rparr>,
       (\<lambda>p. if p = 1 then Some (CmsgInPktinfo
                \<lparr>ipi_ifindex = 3, ipi_spec_dst = 0, ipi_addr = 3221225985\<rparr>) else None))"
  by (simp add: udp_pktinfo_handle_def)

text \<open>
  Claim C9, amended: for every received datagram the outgoing header gets the
  control length of the received one and its control buffer, or \<open>NULL\<close> when that
  length is 0. On a Linux or Apple build, when the buffer holds a first control
  message, the interface index of an IPv4 or IPv6 \<open>PKTINFO\<close> in it is set to 0
  and, for IPv4, the source address \<open>ipi_spec_dst\<close> becomes the address the query
  was received on; any other message is left as it is. On other builds the
  buffer is handed over untouched.
\<close>

theorem udp_pktinfo_handle_pktinfo:
  "(\<forall>r. udp_pktinfo_handle plat mem rx tx = Returns r \<longrightarrow>
      msg_controllen (fst r) = msg_controllen rx \<and>
      msg_control (fst r) = (if msg_controllen rx > 0 then msg_control rx else None)) \<and>
   (linux_or_apple plat \<and> sizeof_cmsghdr plat \<le> msg_controllen rx \<and>
    0 < msg_controllen rx \<and> msg_control rx = Some p \<and> mem p = Some c \<longrightarrow>
      udp_pktinfo_handle plat mem rx tx =
        Returns (tx\<lparr>msg_controllen := msg_controllen rx, msg_control := Some p\<rparr>,
                 mem(p \<mapsto> (case c of
                     CmsgInPktinfo info \<Rightarrow>
                       CmsgInPktinfo \<lparr>ipi_ifindex = 0, ipi_spec_dst = ipi_addr info,
                                      ipi_addr = ipi_addr info\<rparr>
                   | CmsgIn6Pktinfo info \<Rightarrow>
                       CmsgIn6Pktinfo \<lparr>ipi6_addr = ipi6_addr info, ipi6_ifindex = 0\<rparr>
                   | CmsgOther lvl ty octets \<Rightarrow> CmsgOther lvl ty octets)))) \<and>
   (\<not> linux_or_apple plat \<longrightarrow>
      udp_pktinfo_handle plat mem rx tx =
        Returns (tx\<lparr>msg_controllen := msg_controllen rx,
                    msg_control := (if msg_controllen rx > 0 then msg_control rx else None)\<rparr>,
                 mem))"
proof -
  have A: "\<forall>r. udp_pktinfo_handle plat mem rx tx = Returns r \<longrightarrow>
      msg_controllen (fst r) = msg_controllen rx \<and>
      msg_control (fst r) = (if msg_controllen rx > 0 then msg_control rx else None)"
    by (auto simp: udp_pktinfo_handle_def Let_def split: if_splits option.splits cmsghdr.splits)
  have B: "udp_pktinfo_handle plat mem rx tx =
        Returns (tx\<lparr>msg_controllen := msg_controllen rx, msg_control := Some p\<rparr>,
                 mem(p \<mapsto> (case c of
                     CmsgInPktinfo info \<Rightarrow>
                       CmsgInPktinfo \<lparr>ipi_ifindex = 0, ipi_spec_dst = ipi_addr info,
                                      ipi_addr = ipi_addr info\<rparr>
                   | CmsgIn6Pktinfo info \<Rightarrow>
                       CmsgIn6Pktinfo \<lparr>ipi6_addr = ipi6_addr info, ipi6_ifindex = 0\<rparr>
                   | CmsgOther lvl ty octets \<Rightarrow> CmsgOther lvl ty octets)))"
    if a: "linux_or_apple plat \<and> sizeof_cmsghdr plat \<le> msg_controllen rx \<and>
           0 < msg_controllen rx \<and> msg_control rx = Some p \<and> mem p = Some c"
  proof -
    from a have f: "CMSG_FIRSTHDR plat (tx\<lparr>msg_controllen := msg_controllen rx,
                                            msg_control := Some p\<rparr>) = Some p"
      by (simp add: CMSG_FIRSTHDR_def)
    show ?thesis
      using a f by (cases c) (auto simp: udp_pktinfo_handle_def Let_def fun_upd_idem)
  qed
  have C: "udp_pktinfo_handle plat mem rx tx =
        Returns (tx\<lparr>msg_controllen := msg_controllen rx,
                    msg_control := (if msg_controllen rx > 0 then msg_control rx else None)\<rparr>,
                 mem)"
    if "\<not> linux_or_apple plat"
    using that by (simp add: udp_pktinfo_handle_def Let_def)
  show ?thesis using A B C by blast
qed

theorem udp_pktinfo_handle_pktinfo_witness:
  "udp_pktinfo_handle \<lparr>linux_or_apple = True, sizeof_cmsghdr = 16\<rparr>
     (\<lambda>p. if p = 1 then Some (CmsgInPktinfo
                \<lparr>ipi_ifindex = 3, ipi_spec_dst = 0, ipi_addr = 3221225985\<rparr>) else None)
     \<lparr>msg_control = Some 1, msg_controllen = 28\<rparr>
     \<lparr>msg_control = Some 1, msg_controllen = 40\<rparr>
   = Returns (\<lparr>msg_control = Some 1, msg_controllen = 28\<rparr>,
       (\<lambda>p. if p = 1 then Some (CmsgInPktinfo
                \<lparr>ipi_ifindex = 0, ipi_spec_dst = 3221225985, ipi_addr = 3221225985\<rparr>)
            else None))"
  using udp_pktinfo_handle_pktinfo [of "\<lparr>linux_or_apple = True, sizeof_cmsghdr = 16\<rparr>"
    "\<lambda>p. if p = 1 then Some (CmsgInPktinfo
                \<lparr>ipi_ifindex = 3, ipi_spec_dst = 0, ipi_addr = 3221225985\<rparr>) else None"
    "\<lparr>msg_control = Some 1, msg_controllen = 28\<rparr>"
    "\<lparr>msg_control = Some 1, msg_controllen = 40\<rparr>" 1
    "CmsgInPktinfo \<lparr>ipi_ifindex = 3, ipi_spec_dst = 0, ipi_addr = 3221225985\<rparr>"]
  by (simp add: fun_eq_iff)

subsection \<open>\<open>notify_produce\<close>\<close>

text \<open>
  Claim C6: the packet that \<open>notify_produce\<close> leaves has opcode \<open>NOTIFY\<close>, the AA
  flag set, the question (zone, class IN, type SOA) and, when the layer's data
  holds a SOA record set, exactly that record set in its answer section (no
  answer otherwise); the layer goes on to \<open>CONSUME\<close>.
\<close>

theorem notify_produce_packet:
  "fst (notify_produce rnd l pkt) = KNOT_STATE_CONSUME \<and>
   wire_opcode (wire (snd (snd (notify_produce rnd l pkt)))) = KNOT_OPCODE_NOTIFY \<and>
   wire_aa (wire (snd (snd (notify_produce rnd l pkt)))) \<and>
   question (snd (snd (notify_produce rnd l pkt)))
     = Some (zone (data l), KNOT_CLASS_IN, KNOT_RRTYPE_SOA) \<and>
   section_rrsets (snd (snd (notify_produce rnd l pkt))) KNOT_ANSWER
     = (case soa (data l) of None \<Rightarrow> [] | Some s \<Rightarrow> [s])"
  by (simp add: notify_produce_def Let_def query_init_pkt_def knot_wire_set_opcode_def
        knot_wire_set_aa_def knot_pkt_put_question_def knot_pkt_begin_def knot_pkt_put_def
        query_put_edns_def section_rrsets_def split: option.splits)

theorem notify_produce_packet_witness:
  "wire_opcode (wire (snd (snd (notify_produce 77 example_notify_layer
      (knot_pkt_new \<lparr>wire_id = 0, wire_opcode = 0, wire_aa = False, wire_rcode = 0\<rparr> 65535)))))
     = 4 \<and>
   question (snd (snd (notify_produce 77 example_notify_layer
      (knot_pkt_new \<lparr>wire_id = 0, wire_opcode = 0, wire_aa = False, wire_rcode = 0\<rparr> 65535))))
     = Some (''example.'', 1, 6) \<and>
   section_rrsets (snd (snd (notify_produce 77 example_notify_layer
      (knot_pkt_new \<lparr>wire_id = 0, wire_opcode = 0, wire_aa = False, wire_rcode = 0\<rparr> 65535))))
      KNOT_ANSWER = [example_soa]"
  using notify_produce_packet [of 77 example_notify_layer
      "knot_pkt_new \<lparr>wire_id = 0, wire_opcode = 0, wire_aa = False, wire_rcode = 0\<rparr> 65535"]
  by (simp add: example_notify_layer_def KNOT_OPCODE_NOTIFY_def KNOT_CLASS_IN_def
        KNOT_RRTYPE_SOA_def)


subsection \<open>The QUIC connection table\<close>
















lemma knot_quic_table_add_Some:
  assumes "knot_quic_table_add h mem table cid fresh = Returns (Some p, mem', table')"
  shows "fresh = Some p" and "length cid \<le> NGTCP2_MAX_CIDLEN" and "table_size table \<noteq> 0"
    and "unat (knot_quic_conn_hash h cid) mod table_size table < length (conns table)"
    and "mem' = mem(p \<mapsto> \<lparr>dcid = cid, ngtcp2_conn = None,
                  next = conns table ! (unat (knot_quic_conn_hash h cid) mod table_size table)\<rparr>)"
    and "table' = table\<lparr>conns := (conns table)
                  [unat (knot_quic_conn_hash h cid) mod table_size table := Some p]\<rparr>"
  using assms
  by (auto simp: knot_quic_table_add_def ngtcp2_cid_init_def Let_def
           split: option.splits if_splits exec.splits)




text \<open>
  Where the octet count wraps around: a capacity of \<open>2 ^ 61\<close> is allocated as the
  fixed part alone, a table with no bucket whose \<open>size\<close> says \<open>2 ^ 61\<close>.
\<close>

lemma knot_quic_table_new_wraps:
  "knot_quic_table_new 2305843009213693952 True =
     Returns (Some \<lparr>table_size = 2305843009213693952, usage = 0, inbufs_total = 0,
                     conns = []\<rparr>)"
  by (simp add: knot_quic_table_new_def sizeof_knot_quic_table_def sizeof_conn_pointer_def)


lemma example_hash:
  "knot_quic_conn_hash example_host example_cid = 0x080706050D030201"
  unfolding example_cid_def by code_simp

lemma example_bucket:
  "unat (knot_quic_conn_hash example_host example_cid) mod table_size example_table = 1"
  by (simp add: example_hash example_table_def)

lemma example_add:
  "knot_quic_table_add example_host (\<lambda>p. None) example_table example_cid (Some 10) =
     Returns (Some 10,
       (\<lambda>p. None)(10 \<mapsto> \<lparr>dcid = example_cid, ngtcp2_conn = None, next = None\<rparr>),
       example_table\<lparr>conns := [None, Some 10, None, None]\<rparr>)"
proof -
  have l: "length example_cid \<le> NGTCP2_MAX_CIDLEN"
    by (simp add: example_cid_def NGTCP2_MAX_CIDLEN_def)
  show ?thesis
    unfolding knot_quic_table_add_def ngtcp2_cid_init_def Let_def
    by (simp only: l example_bucket if_True option.case exec.case)
       (simp add: example_table_def)
qed






text \<open>
  Claim C5: whenever \<open>knot_quic_table_add\<close> returns a connection for an ID,
  \<open>knot_quic_table_find\<close> on the table and the store it leaves, with the same ID,
  returns, and returns that connection.
\<close>

theorem knot_quic_table_find_after_add:
  assumes "knot_quic_table_add h mem table cid fresh = Returns (Some p, mem', table')"
  shows "knot_quic_table_find h mem' table' cid = Some (Returns (Some p))"
proof -
  let ?b = "unat (knot_quic_conn_hash h cid) mod table_size table"
  note a = knot_quic_table_add_Some [OF assms]
  have sz: "table_size table' = table_size table" "length (conns table') = length (conns table)"
    and hd: "conns table' ! ?b = Some p"
    using a(4,6) by simp_all
  have m: "mem' p = Some \<lparr>dcid = cid, ngtcp2_conn = None, next = conns table ! ?b\<rparr>"
    using a(5) by simp
  have "quic_find_loop mem' cid (Some p) = Some (Returns (Some p))"
    by (subst quic_find_loop.simps) (simp add: m ngtcp2_cid_eq_def)
  then show ?thesis
    using a(3,4) sz hd by (simp add: knot_quic_table_find_def Let_def)
qed

theorem knot_quic_table_find_after_add_witness:
  "knot_quic_table_find example_host
     ((\<lambda>p. None)(10 \<mapsto> \<lparr>dcid = example_cid, ngtcp2_conn = None, next = None\<rparr>))
     (example_table\<lparr>conns := [None, Some 10, None, None]\<rparr>) example_cid
   = Some (Returns (Some 10))"
  using knot_quic_table_find_after_add [OF example_add] .

end
